theory Spec2Isabelle
  imports Complex_Main "HOL-Library.Sublist"
begin

section \<open>Python values and exceptions\<close>

text \<open>
  The values the orchestration layer handles are what a JSON decoder or an SDK hands
  back: \<open>None\<close>, booleans, numbers, strings, lists and dictionaries with string keys.
  A dictionary is an association list, looked up with \<open>map_of\<close>. A Python \<open>str\<close> is
  a \<open>string\<close>, one \<open>char\<close> for each character; the literals of the code are ASCII.
\<close>

datatype pyval =
    PNone
  | PBool bool
  | PInt int
  | PFloat real
  | PStr string
  | PList "pyval list"
  | PDict "(string \<times> pyval) list"

text \<open>
  An exception is its class name and the text \<open>str(e)\<close>. Every exception of the model
  is an instance of Python's \<open>Exception\<close>, which is what \<open>except Exception\<close> catches.
  The text is observed only in \<open>send_chat_message\<close>, whose handler formats it into
  its reply; everywhere else the handler drops it.
\<close>

datatype exn = Exn (exn_class: string) (exn_str: string)

definition bind_exn :: "exn + 'a \<Rightarrow> ('a \<Rightarrow> exn + 'b) \<Rightarrow> exn + 'b" where
  "bind_exn m f = (case m of Inl e \<Rightarrow> Inl e | Inr v \<Rightarrow> f v)"

definition try_except :: "exn + 'a \<Rightarrow> (exn \<Rightarrow> exn + 'a) \<Rightarrow> exn + 'a" where
  "try_except body handler = (case body of Inl e \<Rightarrow> handler e | Inr v \<Rightarrow> Inr v)"

fun type_name :: "pyval \<Rightarrow> string" where
  "type_name PNone = ''NoneType''"
| "type_name (PBool _) = ''bool''"
| "type_name (PInt _) = ''int''"
| "type_name (PFloat _) = ''float''"
| "type_name (PStr _) = ''str''"
| "type_name (PList _) = ''list''"
| "type_name (PDict _) = ''dict''"

text \<open>Truth value of an object, as \<open>not context\<close> tests it.\<close>

fun truthy :: "pyval \<Rightarrow> bool" where
  "truthy PNone = False"
| "truthy (PBool b) = b"
| "truthy (PInt i) = (i \<noteq> 0)"
| "truthy (PFloat r) = (r \<noteq> 0)"
| "truthy (PStr s) = (s \<noteq> [])"
| "truthy (PList xs) = (xs \<noteq> [])"
| "truthy (PDict kvs) = (kvs \<noteq> [])"

text \<open>Truth value of what \<open>os.getenv\<close> returns: \<open>None\<close> and the empty string are false.\<close>

fun env_set :: "string option \<Rightarrow> bool" where
  "env_set None = False"
| "env_set (Some s) = (s \<noteq> [])"

text \<open>\<open>sub in s\<close> on strings: \<open>sub\<close> occurs in \<open>s\<close> as a contiguous run.\<close>

fun is_substring :: "string \<Rightarrow> string \<Rightarrow> bool" where
  "is_substring sub [] = (sub = [])"
| "is_substring sub (c # cs) = (prefix sub (c # cs) \<or> is_substring sub cs)"

text \<open>\<open>key in v\<close>, for a string \<open>key\<close>.\<close>

fun py_contains :: "pyval \<Rightarrow> string \<Rightarrow> exn + bool" where
  "py_contains (PDict kvs) key = Inr (key \<in> set (map fst kvs))"
| "py_contains (PList xs) key = Inr (PStr key \<in> set xs)"
| "py_contains (PStr s) key = Inr (is_substring key s)"
| "py_contains v key =
     Inl (Exn ''TypeError'' (''argument of type '' @ [CHR 0x27] @ type_name v @ [CHR 0x27]
                             @ '' is not iterable''))"

text \<open>\<open>v[key]\<close>, for a string \<open>key\<close>.\<close>

fun py_subscript :: "pyval \<Rightarrow> string \<Rightarrow> exn + pyval" where
  "py_subscript (PDict kvs) key =
     (case map_of kvs key of
        Some x \<Rightarrow> Inr x
      | None \<Rightarrow> Inl (Exn ''KeyError'' ([CHR 0x27] @ key @ [CHR 0x27])))"
| "py_subscript (PList xs) key =
     Inl (Exn ''TypeError'' ''list indices must be integers or slices, not str'')"
| "py_subscript (PStr s) key =
     Inl (Exn ''TypeError'' ''string indices must be integers'')"
| "py_subscript v key =
     Inl (Exn ''TypeError'' ([CHR 0x27] @ type_name v @ [CHR 0x27]
                             @ '' object is not subscriptable''))"

text \<open>\<open>v[0]\<close>.\<close>

fun py_index0 :: "pyval \<Rightarrow> exn + pyval" where
  "py_index0 (PList xs) =
     (case xs of
        [] \<Rightarrow> Inl (Exn ''IndexError'' ''list index out of range'')
      | x # _ \<Rightarrow> Inr x)"
| "py_index0 (PStr s) =
     (case s of
        [] \<Rightarrow> Inl (Exn ''IndexError'' ''string index out of range'')
      | c # _ \<Rightarrow> Inr (PStr [c]))"
| "py_index0 (PDict kvs) = Inl (Exn ''KeyError'' ''0'')"
| "py_index0 v =
     Inl (Exn ''TypeError'' ([CHR 0x27] @ type_name v @ [CHR 0x27]
                             @ '' object is not subscriptable''))"

definition no_attribute :: "pyval \<Rightarrow> string \<Rightarrow> exn" where
  "no_attribute v attr =
     Exn ''AttributeError'' ([CHR 0x27] @ type_name v @ [CHR 0x27]
                             @ '' object has no attribute '' @ [CHR 0x27] @ attr @ [CHR 0x27])"

text \<open>\<open>v.get(key, default)\<close>: only a dictionary has the method.\<close>

fun py_get :: "pyval \<Rightarrow> string \<Rightarrow> pyval \<Rightarrow> exn + pyval" where
  "py_get (PDict kvs) key dflt =
     (case map_of kvs key of Some x \<Rightarrow> Inr x | None \<Rightarrow> Inr dflt)"
| "py_get v key dflt = Inl (no_attribute v ''get'')"

text \<open>
  Case mapping is modelled on the letters A to Z and a to z, of which the three keywords
  and the labels of the code are made. Other characters are left as they are, where
  Python would map the other cased letters as well; none of those maps to one of the
  letters a to z, so the keyword test of \<open>send_chat_message\<close> is the one of Python.
\<close>

definition upper_case :: string where
  "upper_case = ''ABCDEFGHIJKLMNOPQRSTUVWXYZ''"

definition lower_case :: string where
  "lower_case = ''abcdefghijklmnopqrstuvwxyz''"

definition lower_char :: "char \<Rightarrow> char" where
  "lower_char c = (case map_of (zip upper_case lower_case) c of Some l \<Rightarrow> l | None \<Rightarrow> c)"

definition upper_char :: "char \<Rightarrow> char" where
  "upper_char c = (case map_of (zip lower_case upper_case) c of Some u \<Rightarrow> u | None \<Rightarrow> c)"

definition lower :: "string \<Rightarrow> string" where
  "lower s = map lower_char s"

text \<open>\<open>s.capitalize()\<close>: the first character in upper case, the rest in lower case.\<close>

fun capitalize :: "string \<Rightarrow> string" where
  "capitalize [] = []"
| "capitalize (c # cs) = upper_char c # map lower_char cs"

fun py_capitalize :: "pyval \<Rightarrow> exn + string" where
  "py_capitalize (PStr s) = Inr (capitalize s)"
| "py_capitalize v = Inl (no_attribute v ''capitalize'')"

text \<open>
  \<open>v += s\<close> for a string \<open>s\<close>: concatenation on a string, extension by the characters
  of \<open>s\<close> on a list, \<open>TypeError\<close> on everything else.
\<close>

fun py_iadd_str :: "pyval \<Rightarrow> string \<Rightarrow> exn + pyval" where
  "py_iadd_str (PStr r) s = Inr (PStr (r @ s))"
| "py_iadd_str (PList xs) s = Inr (PList (xs @ map (\<lambda>c. PStr [c]) s))"
| "py_iadd_str v s =
     Inl (Exn ''TypeError'' (''unsupported operand type(s) for +=: '' @ [CHR 0x27]
                             @ type_name v @ [CHR 0x27] @ '' and '' @ [CHR 0x27] @ ''str''
                             @ [CHR 0x27]))"

fun is_dict :: "pyval \<Rightarrow> bool" where
  "is_dict (PDict _) = True"
| "is_dict _ = False"

section \<open>Financial health score (app.py, lines 142-152)\<close>

text \<open>
  \<^verbatim>\<open>
  def calculate_financial_health_score(income, expenses, savings):
      if income == 0:
          return 0
      savings_rate = (savings / income) * 100 if income > 0 else 0
      expense_diversity = min(len(set(expenses.keys())) / 10, 1.0)
      score = (savings_rate * 0.6) + (expense_diversity * 40)
      return min(max(score, 0), 100)
  \<close>
  Python numbers are read as real numbers: the function is checked as the arithmetic
  it writes down, without the rounding of binary floating point. The dictionary
  \<open>expenses\<close> is an association list of category and amount; \<open>set(expenses.keys())\<close>
  is the set of its first components.
\<close>

definition calculate_financial_health_score ::
    "real \<Rightarrow> (string \<times> real) list \<Rightarrow> real \<Rightarrow> real" where
  "calculate_financial_health_score income expenses savings =
     (if income = 0 then 0
      else
        let savings_rate = (if income > 0 then (savings / income) * 100 else 0);
            expense_diversity = min (real (card (set (map fst expenses))) / 10) 1;
            score = (savings_rate * (6 / 10)) + (expense_diversity * 40)
        in min (max score 0) 100)"

text \<open>The clamp of the specification, section 4.5: \<open>clamp(x, lo, hi)\<close>.\<close>

definition clamp :: "real \<Rightarrow> real \<Rightarrow> real \<Rightarrow> real" where
  "clamp x lo hi = min (max x lo) hi"

section \<open>The external world\<close>

text \<open>
  What lies outside the program is a record of answers: the environment variables, what
  the SDK constructors do, what each backend call returns or raises, and the index that
  \<open>random.choice\<close> draws. Each call of an operation takes one such record; two calls
  may take two different ones. \<open>print\<close> is not modelled.
\<close>

datatype service = Service string string

text \<open>
  The response of \<open>requests.post\<close>: its status code, the message that
  \<open>raise_for_status\<close> builds for an error status, and what \<open>response.json()\<close> does.
\<close>

record http_response =
  status_code :: nat
  http_error_msg :: string
  json :: "exn + pyval"

record world =
  os_getenv :: "string \<Rightarrow> string option"
  sdk_assistant :: "string \<Rightarrow> string \<Rightarrow> exn option"
  sdk_nlu :: "string \<Rightarrow> string \<Rightarrow> exn option"
  assistant_create_session :: "service \<Rightarrow> string option \<Rightarrow> exn + pyval"
  assistant_message :: "service \<Rightarrow> string option \<Rightarrow> pyval \<Rightarrow> string \<Rightarrow> exn + pyval"
  nlu_analyze :: "service \<Rightarrow> string \<Rightarrow> exn + pyval"
  hf_pipeline :: "exn option"
  hf_sentiment :: "string \<Rightarrow> exn + pyval"
  requests_post :: "string \<Rightarrow> pyval \<Rightarrow> pyval \<Rightarrow> exn + http_response"
  random_index :: nat

text \<open>
  \<open>sdk_assistant w api_key url\<close> is \<open>Some e\<close> when building the authenticator and the
  \<open>AssistantV2\<close> object and setting its URL raises \<open>e\<close>; \<open>sdk_nlu\<close> likewise.
  \<open>assistant_create_session\<close>, \<open>assistant_message\<close> and \<open>nlu_analyze\<close> are the SDK
  calls followed by \<open>get_result()\<close>. \<open>hf_pipeline\<close> is \<open>Some e\<close> when loading the local
  sentiment pipeline raises; \<open>hf_sentiment\<close> is the loaded pipeline applied to a text.
\<close>

definition raise_for_status :: "http_response \<Rightarrow> exn + unit" where
  "raise_for_status response =
     (if 400 \<le> status_code response \<and> status_code response < 600
      then Inl (Exn ''HTTPError'' (http_error_msg response))
      else Inr ())"

section \<open>Backend initialisation (ai_services.py, lines 11-76)\<close>

definition init_watson_assistant :: "world \<Rightarrow> exn + service option" where
  "init_watson_assistant w =
     try_except
       (let api_key = os_getenv w ''WATSON_ASSISTANT_API_KEY'';
            url = os_getenv w ''WATSON_ASSISTANT_URL''
        in if \<not> env_set api_key \<or> \<not> env_set url then Inr None
           else (case sdk_assistant w (the api_key) (the url) of
                   Some e \<Rightarrow> Inl e
                 | None \<Rightarrow> Inr (Some (Service (the api_key) (the url)))))
       (\<lambda>e. Inr None)"

definition init_watson_nlp :: "world \<Rightarrow> exn + service option" where
  "init_watson_nlp w =
     try_except
       (let api_key = os_getenv w ''WATSON_NLP_API_KEY'';
            url = os_getenv w ''WATSON_NLP_URL''
        in if \<not> env_set api_key \<or> \<not> env_set url then Inr None
           else (case sdk_nlu w (the api_key) (the url) of
                   Some e \<Rightarrow> Inl e
                 | None \<Rightarrow> Inr (Some (Service (the api_key) (the url)))))
       (\<lambda>e. Inr None)"

text \<open>
  \<open>init_huggingface_models\<close> returns \<open>{"api_key": api_key}\<close>, or
  \<open>{"sentiment": sentiment_analyzer, "local": True}\<close>, or \<open>None\<close>.
\<close>

datatype hf_models = ApiKey string | LocalModels

definition init_huggingface_models :: "world \<Rightarrow> exn + hf_models option" where
  "init_huggingface_models w =
     try_except
       (let api_key = os_getenv w ''HUGGINGFACE_API_KEY''
        in if env_set api_key then Inr (Some (ApiKey (the api_key)))
           else try_except
                  (case hf_pipeline w of
                     Some e \<Rightarrow> Inl e
                   | None \<Rightarrow> Inr (Some LocalModels))
                  (\<lambda>e. Inr None))
       (\<lambda>e. Inr None)"

section \<open>call_granite_model (ai_services.py, lines 79-106)\<close>

definition granite_mock :: string where
  "granite_mock = ''AI Analysis: Based on your financial data, I recommend:\<newline>\<newline>1. Increase emergency fund to 3-6 months of expenses\<newline>2. Consider diversifying investments\<newline>3. Review subscription services for potential savings\<newline>4. Set up automatic transfers to savings account\<newline>\<newline>These steps could improve your financial health score by 15-20 points.''"

definition granite_failed :: string where
  "granite_failed = ''AI analysis: Based on your financial data, I recommend building a larger emergency fund and reviewing your investment strategy for better long-term growth.''"

text \<open>Lines 88-103: the request, the status check and the reading of the reply.\<close>

definition granite_request ::
    "world \<Rightarrow> string \<Rightarrow> string \<Rightarrow> string \<Rightarrow> string \<Rightarrow> exn + pyval" where
  "granite_request w api_key url prompt model_type =
     (let headers = PDict [(''Authorization'', PStr (''Bearer '' @ api_key)),
                           (''Content-Type'', PStr ''application/json'')];
          payload = PDict [(''model'', PStr model_type),
                           (''prompt'', PStr prompt),
                           (''max_tokens'', PInt 500),
                           (''temperature'', PFloat (3 / 10))]
      in bind_exn (requests_post w url headers payload) (\<lambda>response.
         bind_exn (raise_for_status response) (\<lambda>_.
         bind_exn (json response) (\<lambda>body.
         bind_exn (py_get body ''choices'' (PList [PDict []])) (\<lambda>choices.
         bind_exn (py_index0 choices) (\<lambda>choice.
         py_get choice ''text'' (PStr [])))))))"

definition call_granite_model :: "world \<Rightarrow> string \<Rightarrow> string \<Rightarrow> exn + pyval" where
  "call_granite_model w prompt model_type =
     try_except
       (let api_key = os_getenv w ''GRANITE_API_KEY'';
            url = os_getenv w ''GRANITE_URL''
        in if \<not> env_set api_key \<or> \<not> env_set url then Inr (PStr granite_mock)
           else granite_request w (the api_key) (the url) prompt model_type)
       (\<lambda>e. Inr (PStr granite_failed))"

section \<open>analyze_financial_sentiment (ai_services.py, lines 109-142)\<close>

definition sentiment_mock :: pyval where
  "sentiment_mock =
     PDict [(''sentiment'',
               PDict [(''document'',
                         PDict [(''label'', PStr ''neutral''), (''score'', PFloat (65 / 100))])]),
            (''keywords'',
               PList [PDict [(''text'', PStr ''savings''),
                             (''sentiment'', PDict [(''score'', PFloat (8 / 10))])],
                      PDict [(''text'', PStr ''investment''),
                             (''sentiment'', PDict [(''score'', PFloat (7 / 10))])]])]"

definition analyze_financial_sentiment :: "world \<Rightarrow> string \<Rightarrow> exn + pyval" where
  "analyze_financial_sentiment w text =
     bind_exn (init_watson_nlp w) (\<lambda>nlu.
       case nlu of
         None \<Rightarrow> Inr sentiment_mock
       | Some service \<Rightarrow>
           try_except
             (bind_exn (nlu_analyze w service text) (\<lambda>response. Inr response))
             (\<lambda>e. Inr sentiment_mock))"

section \<open>chat_with_watson (ai_services.py, lines 145-178)\<close>

definition responses :: "string list" where
  "responses =
     [''I've analyzed your financial data. Based on your spending patterns, I recommend increasing your emergency fund to 3 months of expenses.'',
      ''Looking at your budget, I suggest reducing entertainment expenses by 15% to meet your savings goals faster.'',
      ''Your financial health is improving! Consider setting up automatic transfers to your savings account.'',
      ''Based on your current savings rate, you're on track to meet your financial goals in about 4 years.'',
      ''I notice you're spending quite a bit on dining out. Meal prepping could save you around $200 per month.'']"

definition chat_failed :: string where
  "chat_failed = ''I'm having trouble connecting to the financial analysis service. Please try again later.''"

text \<open>
  The \<open>try\<close> block of \<open>chat_with_watson\<close> assigns to \<open>context\<close> and its handler returns
  \<open>context\<close>, so the block is read in two parts. \<open>new_session\<close> is lines 161-165: it
  yields the value of \<open>context\<close> after them. \<open>watson_reply\<close> is lines 167-176: the
  message call and the reading of the reply text out of its result.
\<close>

definition new_session :: "world \<Rightarrow> service \<Rightarrow> string option \<Rightarrow> pyval \<Rightarrow> exn + pyval" where
  "new_session w assistant assistant_id context =
     bind_exn (if \<not> truthy context then Inr True
               else bind_exn (py_contains context ''session_id'') (\<lambda>present. Inr (\<not> present)))
       (\<lambda>absent.
          if absent then
            bind_exn (assistant_create_session w assistant assistant_id) (\<lambda>session.
            bind_exn (py_subscript session ''session_id'') (\<lambda>session_id.
            Inr (PDict [(''session_id'', session_id)])))
          else Inr context)"

definition watson_reply ::
    "world \<Rightarrow> service \<Rightarrow> string option \<Rightarrow> pyval \<Rightarrow> string \<Rightarrow> exn + pyval" where
  "watson_reply w assistant assistant_id context message =
     bind_exn (py_subscript context ''session_id'') (\<lambda>session_id.
     bind_exn (assistant_message w assistant assistant_id session_id message) (\<lambda>response.
     bind_exn (py_subscript response ''output'') (\<lambda>output.
     bind_exn (py_subscript output ''generic'') (\<lambda>generic.
     bind_exn (py_index0 generic) (\<lambda>first.
     py_subscript first ''text'')))))"

definition chat_with_watson :: "world \<Rightarrow> string \<Rightarrow> pyval \<Rightarrow> exn + pyval \<times> pyval" where
  "chat_with_watson w message context =
     bind_exn (init_watson_assistant w) (\<lambda>assistant.
       case assistant of
         None \<Rightarrow> Inr (PStr (responses ! (random_index w mod length responses)), context)
       | Some service \<Rightarrow>
           (let assistant_id = os_getenv w ''WATSON_ASSISTANT_ID''
            in case new_session w service assistant_id context of
                 Inl e \<Rightarrow> Inr (PStr chat_failed, context)
               | Inr context' \<Rightarrow>
                   try_except
                     (bind_exn (watson_reply w service assistant_id context' message)
                        (\<lambda>reply. Inr (reply, context')))
                     (\<lambda>e. Inr (PStr chat_failed, context'))))"

section \<open>analyze_financial_document (ai_services.py, lines 181-229)\<close>

definition insight_result :: "string list \<Rightarrow> pyval \<Rightarrow> string \<Rightarrow> pyval" where
  "insight_result insights sentiment summary =
     PDict [(''insights'', PList (map PStr insights)),
            (''sentiment'', sentiment),
            (''summary'', PStr summary)]"

definition document_mock :: pyval where
  "document_mock =
     insight_result
       [''Q: What are the main expenses?\<newline>A: Based on the document, housing and transportation appear to be your largest expenses.'',
        ''Q: What is the total income?\<newline>A: The document shows a monthly income of approximately $5,000.'',
        ''Q: What are the saving patterns?\<newline>A: You're saving about 20% of your income, which is excellent.'']
       (PList [PDict [(''label'', PStr ''POSITIVE''), (''score'', PFloat (89 / 100))]])
       ''Your financial document shows healthy spending habits with a good savings rate. Focus on reducing discretionary spending to improve your financial position further.''"

definition document_api :: pyval where
  "document_api =
     insight_result
       [''Q: What are the main expenses?\<newline>A: Housing ($1,500) and Food ($600) are your largest expenses.'',
        ''Q: What is the total income?\<newline>A: Your monthly income is $5,000.'',
        ''Q: What are the saving patterns?\<newline>A: You're saving $1,000 monthly (20% savings rate).'']
       (PList [PDict [(''label'', PStr ''POSITIVE''), (''score'', PFloat (85 / 100))]])
       ''Your financial statement shows strong financial health with a good savings rate. Consider investing your savings for better returns.''"

definition document_local :: "pyval \<Rightarrow> pyval" where
  "document_local sentiment =
     insight_result
       [''Q: What are the main expenses?\<newline>A: The document shows significant spending on housing and utilities.'',
        ''Q: What is the total income?\<newline>A: Monthly income appears to be in the range of $4,000-$5,000.'',
        ''Q: What are the saving patterns?\<newline>A: You're saving approximately 15-20% of your income.'']
       sentiment
       ''Your financial document indicates generally good financial habits with room for optimization in discretionary spending categories.''"

definition document_failed :: pyval where
  "document_failed =
     insight_result
       [''Q: What are the main expenses?\<newline>A: Analysis suggests housing and transportation are primary expenses.'',
        ''Q: What is the total income?\<newline>A: Estimated monthly income is $4,500-$5,500.'',
        ''Q: What are the saving patterns?\<newline>A: Savings rate appears to be around 18% of income.'']
       (PList [PDict [(''label'', PStr ''NEUTRAL''), (''score'', PFloat (75 / 100))]])
       ''The document shows reasonably good financial management. Consider consulting with a financial advisor for personalized advice.''"

definition analyze_financial_document :: "world \<Rightarrow> string \<Rightarrow> exn + pyval" where
  "analyze_financial_document w text =
     bind_exn (init_huggingface_models w) (\<lambda>models.
       case models of
         None \<Rightarrow> Inr document_mock
       | Some m \<Rightarrow>
           try_except
             (case m of
                ApiKey _ \<Rightarrow> Inr document_api
              | LocalModels \<Rightarrow>
                  bind_exn (hf_sentiment w (take 512 text)) (\<lambda>sentiment.
                  Inr (document_local sentiment)))
             (\<lambda>e. Inr document_failed))"

section \<open>send_chat_message (app.py, lines 124-139)\<close>

definition trigger_keywords :: "string list" where
  "trigger_keywords = [''analyze'', ''sentiment'', ''review'']"

text \<open>Line 134: the label read out of the analysis, \<open>neutral\<close> when a key is missing.\<close>

definition sentiment_label :: "pyval \<Rightarrow> exn + pyval" where
  "sentiment_label analysis =
     bind_exn (py_get analysis ''sentiment'' (PDict [])) (\<lambda>s.
     bind_exn (py_get s ''document'' (PDict [])) (\<lambda>d.
     py_get d ''label'' (PStr ''neutral'')))"

text \<open>
  Line 131: \<open>any(keyword in message.lower() for keyword in ['analyze', 'sentiment',
  'review'])\<close>.
\<close>

definition triggers_analysis :: "string \<Rightarrow> bool" where
  "triggers_analysis message =
     list_ex (\<lambda>keyword. is_substring keyword (lower message)) trigger_keywords"

text \<open>Lines 131-137: what becomes of \<open>response\<close> after the call of \<open>chat_with_watson\<close>.\<close>

definition enhance :: "world \<Rightarrow> string \<Rightarrow> pyval \<Rightarrow> exn + pyval" where
  "enhance w message response =
     (if triggers_analysis message then
        bind_exn (analyze_financial_sentiment w message) (\<lambda>analysis.
          if is_dict analysis then
            bind_exn (sentiment_label analysis) (\<lambda>sentiment.
            bind_exn (py_capitalize sentiment) (\<lambda>label.
            py_iadd_str response (''\<newline>\<newline>Sentiment Analysis: '' @ label)))
          else Inr response)
      else Inr response)"

definition chat_error :: "exn \<Rightarrow> pyval" where
  "chat_error e = PStr (''I encountered an error: '' @ exn_str e @ ''. Please try again.'')"

definition send_chat_message :: "world \<Rightarrow> string \<Rightarrow> exn + pyval" where
  "send_chat_message w message =
     try_except
       (bind_exn (chat_with_watson w message PNone) (\<lambda>(response, context).
          enhance w message response))
       (\<lambda>e. Inr (chat_error e))"

section \<open>Result shapes of the specification\<close>

text \<open>
  The shapes that sections 3 and 6 of the specification give to the results. A chat
  reply text is a non-empty string; a generated text is a string.
\<close>

fun is_str :: "pyval \<Rightarrow> bool" where
  "is_str (PStr _) = True"
| "is_str _ = False"

fun is_nonempty_str :: "pyval \<Rightarrow> bool" where
  "is_nonempty_str (PStr s) = (s \<noteq> [])"
| "is_nonempty_str _ = False"

text \<open>
  A sentiment result has a sentiment whose label is positive, neutral or negative, and
  a sequence of keywords. The label is where the code reads it: under \<open>sentiment\<close>,
  \<open>document\<close>, \<open>label\<close>.
\<close>

definition is_sentiment_result :: "pyval \<Rightarrow> bool" where
  "is_sentiment_result v =
     ((case bind_exn (py_subscript v ''sentiment'') (\<lambda>s.
            bind_exn (py_subscript s ''document'') (\<lambda>d. py_subscript d ''label'')) of
         Inr (PStr l) \<Rightarrow> l \<in> set [''positive'', ''neutral'', ''negative'']
       | _ \<Rightarrow> False)
      \<and> (case py_subscript v ''keywords'' of Inr (PList _) \<Rightarrow> True | _ \<Rightarrow> False))"

text \<open>
  An insight result is not empty: it has a non-empty sequence of non-empty insight
  strings, a sentiment, and a non-empty summary.
\<close>

definition is_insight_result :: "pyval \<Rightarrow> bool" where
  "is_insight_result v =
     ((case py_subscript v ''insights'' of
         Inr (PList xs) \<Rightarrow> xs \<noteq> [] \<and> list_all is_nonempty_str xs
       | _ \<Rightarrow> False)
      \<and> (case py_subscript v ''sentiment'' of Inr _ \<Rightarrow> True | Inl _ \<Rightarrow> False)
      \<and> (case py_subscript v ''summary'' of Inr s \<Rightarrow> is_nonempty_str s | Inl _ \<Rightarrow> False))"

text \<open>A context is structurally valid when it is a dictionary with a session handle.\<close>

fun has_session_handle :: "pyval \<Rightarrow> bool" where
  "has_session_handle (PDict kvs) = (map_of kvs ''session_id'' \<noteq> None)"
| "has_session_handle _ = False"

section \<open>Two concrete worlds\<close>

text \<open>
  \<open>offline_world\<close>: no environment variable is set, the local sentiment pipeline does
  not load, and nothing outside answers.
\<close>

definition unreachable :: exn where
  "unreachable = Exn ''ConnectionError'' ''connection refused''"

definition offline_world :: world where
  "offline_world =
     \<lparr> os_getenv = (\<lambda>_. None),
       sdk_assistant = (\<lambda>_ _. None),
       sdk_nlu = (\<lambda>_ _. None),
       assistant_create_session = (\<lambda>_ _. Inl unreachable),
       assistant_message = (\<lambda>_ _ _ _. Inl unreachable),
       nlu_analyze = (\<lambda>_ _. Inl unreachable),
       hf_pipeline = Some (Exn ''OSError'' ''model not found''),
       hf_sentiment = (\<lambda>_. Inl (Exn ''RuntimeError'' ''no model'')),
       requests_post = (\<lambda>_ _ _. Inl unreachable),
       random_index = 0 \<rparr>"

text \<open>
  \<open>live_world\<close>: every backend is configured and answers with a well-formed payload.
  Watson Assistant opens session \<open>S1\<close> and echoes the session handle it is given in
  its reply text.
\<close>

definition live_env :: "(string \<times> string) list" where
  "live_env =
     [(''WATSON_ASSISTANT_API_KEY'', ''k1''), (''WATSON_ASSISTANT_URL'', ''https://assistant''),
      (''WATSON_ASSISTANT_ID'', ''a1''),
      (''WATSON_NLP_API_KEY'', ''k2''), (''WATSON_NLP_URL'', ''https://nlu''),
      (''HUGGINGFACE_API_KEY'', ''k3''),
      (''GRANITE_API_KEY'', ''k4''), (''GRANITE_URL'', ''https://granite'')]"

definition live_message :: "service \<Rightarrow> string option \<Rightarrow> pyval \<Rightarrow> string \<Rightarrow> exn + pyval" where
  "live_message assistant assistant_id session_id message =
     (case session_id of
        PStr sid \<Rightarrow>
          Inr (PDict [(''output'',
                 PDict [(''generic'',
                   PList [PDict [(''response_type'', PStr ''text''),
                                 (''text'', PStr (''Reply in session '' @ sid))]])])])
      | _ \<Rightarrow> Inl (Exn ''ApiException'' ''Invalid Session''))"

definition live_world :: world where
  "live_world =
     \<lparr> os_getenv = map_of live_env,
       sdk_assistant = (\<lambda>_ _. None),
       sdk_nlu = (\<lambda>_ _. None),
       assistant_create_session = (\<lambda>_ _. Inr (PDict [(''session_id'', PStr ''S1'')])),
       assistant_message = live_message,
       nlu_analyze = (\<lambda>_ _. Inr (PDict
          [(''sentiment'', PDict [(''document'',
               PDict [(''label'', PStr ''positive''), (''score'', PFloat (9 / 10))])]),
           (''keywords'', PList [])])),
       hf_pipeline = None,
       hf_sentiment = (\<lambda>_. Inr (PList [PDict [(''label'', PStr ''NEGATIVE''),
                                               (''score'', PFloat (6 / 10))]])),
       requests_post = (\<lambda>_ _ _. Inr \<lparr> status_code = 200, http_error_msg = [],
          json = Inr (PDict [(''choices'', PList [PDict [(''text'', PStr ''Save more.'')]])]) \<rparr>),
       random_index = 0 \<rparr>"

text \<open>The answer of a server that fails: status 500 and a body that is not JSON.\<close>

definition http_500 :: http_response where
  "http_500 =
     \<lparr> status_code = 500,
       http_error_msg = ''500 Server Error: Internal Server Error'',
       json = Inl (Exn ''JSONDecodeError'' ''Expecting value: line 1 column 1 (char 0)'') \<rparr>"

text \<open>
  Two variants of \<open>live_world\<close>: one whose sentiment backend answers with the JSON
  array \<open>[]\<close>, one where Watson is unreachable and the HTTP server answers every
  request with status 500.
\<close>

definition malformed_nlu_world :: world where
  "malformed_nlu_world = live_world \<lparr> nlu_analyze := (\<lambda>_ _. Inr (PList [])) \<rparr>"

definition failing_world :: world where
  "failing_world =
     live_world \<lparr> assistant_create_session := (\<lambda>_ _. Inl unreachable),
                  nlu_analyze := (\<lambda>_ _. Inl unreachable),
                  requests_post := (\<lambda>_ _ _. Inr http_500) \<rparr>"

text \<open>
  \<open>mute_world\<close>: as \<open>live_world\<close>, but the message call of Watson Assistant fails.
  \<open>local_world\<close>: as \<open>offline_world\<close>, but the local pipeline loads; applying it fails.
\<close>

definition mute_world :: world where
  "mute_world = live_world \<lparr> assistant_message := (\<lambda>_ _ _ _. Inl unreachable) \<rparr>"

definition local_world :: world where
  "local_world = offline_world \<lparr> hf_pipeline := None \<rparr>"

text \<open>
  A Watson Assistant that knows the session \<open>S1\<close> only: it answers as in \<open>live_world\<close>
  for that handle and refuses every other one.
\<close>

definition single_session_message ::
    "service \<Rightarrow> string option \<Rightarrow> pyval \<Rightarrow> string \<Rightarrow> exn + pyval" where
  "single_session_message assistant assistant_id session_id message =
     (if session_id = PStr ''S1'' then live_message assistant assistant_id session_id message
      else Inl (Exn ''ApiException'' ''Invalid Session''))"

section \<open>Facts about the sequencing of calls and handlers\<close>

lemma bind_exn_simps [simp]:
  "bind_exn (Inl e) f = Inl e" "bind_exn (Inr v) f = f v"
  by (simp_all add: bind_exn_def)

lemma try_except_simps [simp]:
  "try_except (Inl e) h = h e" "try_except (Inr v) h = Inr v"
  by (simp_all add: try_except_def)

lemma init_watson_assistant_total: "\<exists>r. init_watson_assistant w = Inr r"
  by (simp add: init_watson_assistant_def Let_def split: option.splits)

lemma init_watson_nlp_total: "\<exists>r. init_watson_nlp w = Inr r"
  by (simp add: init_watson_nlp_def Let_def split: option.splits)

lemma init_huggingface_models_total: "\<exists>r. init_huggingface_models w = Inr r"
  by (simp add: init_huggingface_models_def Let_def split: option.splits)

lemma chat_unconfigured:
  assumes "init_watson_assistant w = Inr None"
  shows "chat_with_watson w message context =
           Inr (PStr (responses ! (random_index w mod length responses)), context)"
  using assms by (simp add: chat_with_watson_def)

lemma chat_session_failed:
  assumes "init_watson_assistant w = Inr (Some a)"
    and "new_session w a (os_getenv w ''WATSON_ASSISTANT_ID'') context = Inl e"
  shows "chat_with_watson w message context = Inr (PStr chat_failed, context)"
  using assms by (simp add: chat_with_watson_def)

lemma chat_message_failed:
  assumes "init_watson_assistant w = Inr (Some a)"
    and "new_session w a (os_getenv w ''WATSON_ASSISTANT_ID'') context = Inr context'"
    and "watson_reply w a (os_getenv w ''WATSON_ASSISTANT_ID'') context' message = Inl e"
  shows "chat_with_watson w message context = Inr (PStr chat_failed, context')"
  using assms by (simp add: chat_with_watson_def)

lemma chat_answered:
  assumes "init_watson_assistant w = Inr (Some a)"
    and "new_session w a (os_getenv w ''WATSON_ASSISTANT_ID'') context = Inr context'"
    and "watson_reply w a (os_getenv w ''WATSON_ASSISTANT_ID'') context' message = Inr reply"
  shows "chat_with_watson w message context = Inr (reply, context')"
  using assms by (simp add: chat_with_watson_def)

lemma new_session_absent:
  "new_session w a assistant_id PNone =
     bind_exn (assistant_create_session w a assistant_id) (\<lambda>session.
     bind_exn (py_subscript session ''session_id'') (\<lambda>session_id.
     Inr (PDict [(''session_id'', session_id)])))"
  by (simp add: new_session_def)

lemma responses_nonempty: "\<forall>r \<in> set responses. r \<noteq> []"
  by (simp add: responses_def)

lemma chosen_response_nonempty: "responses ! (n mod length responses) \<noteq> []"
proof -
  have "n mod length responses < length responses" by (simp add: responses_def)
  then have "responses ! (n mod length responses) \<in> set responses" by (rule nth_mem)
  with responses_nonempty show ?thesis by blast
qed

lemma chat_failed_nonempty: "chat_failed \<noteq> []"
  by (simp add: chat_failed_def)

lemma sentiment_mock_shape: "is_sentiment_result sentiment_mock"
  by (simp add: is_sentiment_result_def sentiment_mock_def)

lemma sentiment_unconfigured:
  "init_watson_nlp w = Inr None \<Longrightarrow> analyze_financial_sentiment w text = Inr sentiment_mock"
  by (simp add: analyze_financial_sentiment_def)

lemma sentiment_failed:
  "init_watson_nlp w = Inr (Some s) \<Longrightarrow> nlu_analyze w s text = Inl e \<Longrightarrow>
     analyze_financial_sentiment w text = Inr sentiment_mock"
  by (simp add: analyze_financial_sentiment_def)

lemma sentiment_answered:
  "init_watson_nlp w = Inr (Some s) \<Longrightarrow> nlu_analyze w s text = Inr v \<Longrightarrow>
     analyze_financial_sentiment w text = Inr v"
  by (simp add: analyze_financial_sentiment_def)

lemma insight_result_shape:
  "insights \<noteq> [] \<Longrightarrow> list_all (\<lambda>s. s \<noteq> []) insights \<Longrightarrow> summary \<noteq> [] \<Longrightarrow>
     is_insight_result (insight_result insights sentiment summary)"
  by (simp add: is_insight_result_def insight_result_def list_all_iff)

lemma document_cases:
  "analyze_financial_document w text =
     (case init_huggingface_models w of
        Inl e \<Rightarrow> Inl e
      | Inr None \<Rightarrow> Inr document_mock
      | Inr (Some (ApiKey k)) \<Rightarrow> Inr document_api
      | Inr (Some LocalModels) \<Rightarrow>
          (case hf_sentiment w (take 512 text) of
             Inl e \<Rightarrow> Inr document_failed
           | Inr sentiment \<Rightarrow> Inr (document_local sentiment)))"
  by (auto simp: analyze_financial_document_def
           split: sum.splits option.splits hf_models.splits)

lemma granite_cases:
  "call_granite_model w prompt model_type =
     (if \<not> env_set (os_getenv w ''GRANITE_API_KEY'') \<or> \<not> env_set (os_getenv w ''GRANITE_URL'')
      then Inr (PStr granite_mock)
      else (case granite_request w (the (os_getenv w ''GRANITE_API_KEY''))
                   (the (os_getenv w ''GRANITE_URL'')) prompt model_type of
              Inl e \<Rightarrow> Inr (PStr granite_failed)
            | Inr v \<Rightarrow> Inr v))"
  by (simp add: call_granite_model_def Let_def split: sum.splits)

section \<open>Evaluation in the concrete worlds\<close>

lemmas world_defs = offline_world_def live_world_def live_env_def live_message_def
  unreachable_def http_500_def failing_world_def malformed_nlu_world_def mute_world_def
  local_world_def

lemmas init_defs = init_watson_assistant_def init_watson_nlp_def init_huggingface_models_def

lemmas chat_defs = chat_with_watson_def new_session_def watson_reply_def responses_def
  chat_failed_def

lemmas case_defs = lower_def lower_char_def upper_char_def upper_case_def lower_case_def

lemmas send_defs = send_chat_message_def enhance_def triggers_analysis_def
  trigger_keywords_def sentiment_label_def analyze_financial_sentiment_def sentiment_mock_def

lemma init_assistant_offline: "init_watson_assistant offline_world = Inr None"
  by (simp add: init_watson_assistant_def offline_world_def)

lemma init_assistant_live:
  "init_watson_assistant live_world = Inr (Some (Service ''k1'' ''https://assistant''))"
  by (simp add: init_watson_assistant_def live_world_def live_env_def)

section \<open>Properties of the financial health score\<close>

text \<open>
  C6. For non-negative income and savings and every expense mapping, the score is 0
  when income is 0, and otherwise it is
  clamp((savings / income * 100) * 0.6 + min(distinct category count / 10, 1.0) * 40, 0, 100),
  a value between 0 and 100.
\<close>

theorem health_score_formula:
  assumes "0 \<le> income" and "0 \<le> savings"
  shows "(income = 0 \<longrightarrow> calculate_financial_health_score income expenses savings = 0)
       \<and> (income \<noteq> 0 \<longrightarrow>
            calculate_financial_health_score income expenses savings =
              clamp ((savings / income * 100) * (6 / 10)
                     + min (real (card (set (map fst expenses))) / 10) 1 * 40) 0 100)
       \<and> 0 \<le> calculate_financial_health_score income expenses savings
       \<and> calculate_financial_health_score income expenses savings \<le> 100"
  using assms
  by (simp add: calculate_financial_health_score_def clamp_def Let_def)

theorem health_score_formula_witness:
  "(0::real) \<le> 4000 \<and> (0::real) \<le> 500
   \<and> calculate_financial_health_score 4000 [(''Rent'', 1200)] 500 =
       clamp ((500 / 4000 * 100) * (6 / 10)
              + min (real (card (set (map fst [(''Rent'', 1200::real)]))) / 10) 1 * 40) 0 100
   \<and> calculate_financial_health_score 4000 [(''Rent'', 1200)] 500 = 23 / 2"
proof -
  have a: "(0::real) \<le> 4000" and b: "(0::real) \<le> 500" by simp_all
  have v: "calculate_financial_health_score 4000 [(''Rent'', 1200)] 500 = 23 / 2"
    by (simp add: calculate_financial_health_score_def Let_def)
  from health_score_formula [OF a b, of "[(''Rent'', 1200)]"] v a b
  show ?thesis by simp
qed

text \<open>
  C7. With income (non-negative) and expenses fixed, the score does not decrease when
  savings grow.
\<close>

theorem health_score_mono_savings:
  assumes "0 \<le> income" and "savings1 \<le> savings2"
  shows "calculate_financial_health_score income expenses savings1
         \<le> calculate_financial_health_score income expenses savings2"
proof (cases "income = 0")
  case True
  then show ?thesis by (simp add: calculate_financial_health_score_def)
next
  case False
  with assms(1) have pos: "0 < income" by simp
  have "savings1 / income \<le> savings2 / income"
    using assms(2) pos by (simp add: divide_right_mono)
  then have "savings1 / income * 100 * (6 / 10) \<le> savings2 / income * 100 * (6 / 10)"
    by simp
  then show ?thesis
    using pos by (simp add: calculate_financial_health_score_def Let_def min_def max_def)
qed

theorem health_score_mono_savings_witness:
  "(0::real) \<le> 5000 \<and> (1000::real) \<le> 2000
   \<and> calculate_financial_health_score 5000 [(''Housing'', 1500), (''Food'', 600)] 1000
     \<le> calculate_financial_health_score 5000 [(''Housing'', 1500), (''Food'', 600)] 2000"
proof -
  have a: "(0::real) \<le> 5000" and b: "(1000::real) \<le> 2000" by simp_all
  from health_score_mono_savings [OF a b] a b show ?thesis by simp
qed

text \<open>
  C8 as stated: the score of income 5000, expenses {Housing: 1500, Food: 600} and
  savings 1000 is approximately 52.0. The code returns 20 there: the savings rate is
  20, weighted 12, and two categories give a diversity of 0.2, weighted 8.
\<close>

theorem health_score_example_not_52:
  "calculate_financial_health_score 5000 [(''Housing'', 1500), (''Food'', 600)] 1000 = 20
   \<and> \<not> \<bar>calculate_financial_health_score 5000 [(''Housing'', 1500), (''Food'', 600)] 1000
         - 52\<bar> \<le> 1"
  by (simp add: calculate_financial_health_score_def Let_def)

text \<open>
  C8 as amended: the score of income 5000, expenses {Housing: 1500, Food: 600} and
  savings 1000 is 20.
\<close>

theorem health_score_example_is_20:
  "calculate_financial_health_score 5000 [(''Housing'', 1500), (''Food'', 600)] 1000 = 20"
  by (simp add: calculate_financial_health_score_def Let_def)

section \<open>Properties of chat_with_watson\<close>

text \<open>
  C5. When the conversational backend is unconfigured (\<open>init_watson_assistant\<close> returns
  \<open>None\<close>), \<open>chat_with_watson\<close> takes the synthetic path: it returns one of the five
  canned sentences, and as context exactly the context it was given.
\<close>

theorem chat_fallback_keeps_context:
  assumes "init_watson_assistant w = Inr None"
  shows "\<exists>reply. chat_with_watson w message context = Inr (reply, context)
                 \<and> reply \<in> PStr ` set responses"
proof -
  have "random_index w mod length responses < length responses"
    by (simp add: responses_def)
  then have "responses ! (random_index w mod length responses) \<in> set responses"
    by (rule nth_mem)
  with chat_unconfigured [OF assms] show ?thesis by simp
qed

theorem chat_fallback_keeps_context_witness:
  "init_watson_assistant offline_world = Inr None
   \<and> (\<exists>reply. chat_with_watson offline_world ''How am I doing?''
                 (PDict [(''session_id'', PStr ''S7'')])
               = Inr (reply, PDict [(''session_id'', PStr ''S7'')])
               \<and> reply \<in> PStr ` set responses)"
  using chat_fallback_keeps_context [OF init_assistant_offline] init_assistant_offline
  by simp

lemma chat_offline:
  "chat_with_watson offline_world message context = Inr (PStr (responses ! 0), context)"
  by (simp add: chat_unconfigured [OF init_assistant_offline])
     (simp add: offline_world_def responses_def)

lemma chat_live_absent:
  "chat_with_watson live_world message PNone =
     Inr (PStr ''Reply in session S1'', PDict [(''session_id'', PStr ''S1'')])"
  by (simp add: chat_defs init_defs world_defs)

text \<open>
  C4 as stated: two calls with an absent context return contexts that both hold a
  session handle, for every backend configuration. With the conversational backend
  unconfigured the context returned is the absent context that was passed in.
\<close>

theorem chat_offline_context_absent:
  "chat_with_watson offline_world ''Hello'' PNone = Inr (PStr (responses ! 0), PNone)
   \<and> \<not> has_session_handle PNone"
  by (simp add: chat_offline)

text \<open>
  C4 as amended: a call with an absent context returns normally. The context it returns
  holds a session handle exactly when the backend is configured and the session is
  created on this call; it is then the dictionary with the handle that the backend
  returned, so two calls may hold different handles. Otherwise it is the absent context.
\<close>

theorem chat_fresh_context:
  "\<exists>reply ctx. chat_with_watson w message PNone = Inr (reply, ctx)
     \<and> (has_session_handle ctx \<longleftrightarrow>
          (\<exists>a session sid. init_watson_assistant w = Inr (Some a)
             \<and> assistant_create_session w a (os_getenv w ''WATSON_ASSISTANT_ID'') = Inr session
             \<and> py_subscript session ''session_id'' = Inr sid))
     \<and> (\<forall>a session sid. init_watson_assistant w = Inr (Some a)
             \<and> assistant_create_session w a (os_getenv w ''WATSON_ASSISTANT_ID'') = Inr session
             \<and> py_subscript session ''session_id'' = Inr sid
           \<longrightarrow> ctx = PDict [(''session_id'', sid)])
     \<and> (\<not> has_session_handle ctx \<longrightarrow> ctx = PNone)"
proof -
  let ?aid = "os_getenv w ''WATSON_ASSISTANT_ID''"
  obtain r where r: "init_watson_assistant w = Inr r"
    using init_watson_assistant_total by blast
  show ?thesis
  proof (cases r)
    case None
    with r chat_unconfigured [of w message PNone] show ?thesis by simp
  next
    case (Some a)
    with r have a: "init_watson_assistant w = Inr (Some a)" by simp
    show ?thesis
    proof (cases "new_session w a ?aid PNone")
      case (Inl e)
      from chat_session_failed [OF a Inl]
      have c: "chat_with_watson w message PNone = Inr (PStr chat_failed, PNone)" .
      from Inl have "\<not> (\<exists>session sid. assistant_create_session w a ?aid = Inr session
             \<and> py_subscript session ''session_id'' = Inr sid)"
        by (auto simp: new_session_absent)
      with a c show ?thesis by auto
    next
      case (Inr ctx)
      then obtain session sid where s: "assistant_create_session w a ?aid = Inr session"
          "py_subscript session ''session_id'' = Inr sid" "ctx = PDict [(''session_id'', sid)]"
        by (auto simp: new_session_absent bind_exn_def split: sum.splits)
      have "\<exists>reply. chat_with_watson w message PNone = Inr (reply, ctx)"
      proof (cases "watson_reply w a ?aid ctx message")
        case (Inl e)
        from chat_message_failed [OF a Inr Inl] show ?thesis by blast
      next
        case Inr': (Inr reply)
        from chat_answered [OF a Inr Inr'] show ?thesis by blast
      qed
      with a s show ?thesis by auto
    qed
  qed
qed

theorem chat_fresh_context_witness:
  "(\<exists>reply. chat_with_watson live_world ''Hello'' PNone
              = Inr (reply, PDict [(''session_id'', PStr ''S1'')]))
   \<and> (\<exists>reply. chat_with_watson offline_world ''Hello'' PNone = Inr (reply, PNone))"
proof -
  let ?session = "PDict [(''session_id'', PStr ''S1'')]"
  have live: "init_watson_assistant live_world = Inr (Some (Service ''k1'' ''https://assistant''))
      \<and> assistant_create_session live_world (Service ''k1'' ''https://assistant'')
            (os_getenv live_world ''WATSON_ASSISTANT_ID'') = Inr ?session
      \<and> py_subscript ?session ''session_id'' = Inr (PStr ''S1'')"
    by (simp add: init_assistant_live) (simp add: live_world_def)
  have off: "\<not> (\<exists>a session sid. init_watson_assistant offline_world = Inr (Some a)
             \<and> assistant_create_session offline_world a
                   (os_getenv offline_world ''WATSON_ASSISTANT_ID'') = Inr session
             \<and> py_subscript session ''session_id'' = Inr sid)"
    by (simp add: init_assistant_offline)
  from chat_fresh_context [of live_world "''Hello''"] live
  have one: "\<exists>reply. chat_with_watson live_world ''Hello'' PNone = Inr (reply, ?session)"
    by blast
  from chat_fresh_context [of offline_world "''Hello''"] off
  have two: "\<exists>reply. chat_with_watson offline_world ''Hello'' PNone = Inr (reply, PNone)"
    by blast
  from one two show ?thesis by blast
qed

section \<open>Properties of analyze_financial_document\<close>

lemma full_insight_result:
  assumes "length i = 3" and "list_all (\<lambda>s. s \<noteq> []) i" and "m \<noteq> []"
  shows "\<exists>insights sentiment summary.
     insight_result i s m = insight_result insights sentiment summary
     \<and> length insights = 3
     \<and> list_all (\<lambda>s. s \<noteq> []) insights
     \<and> summary \<noteq> []
     \<and> is_insight_result (insight_result insights sentiment summary)"
proof -
  from assms(1) have "i \<noteq> []" by auto
  then have "is_insight_result (insight_result i s m)"
    using assms(2,3) by (rule insight_result_shape)
  with assms show ?thesis by blast
qed

lemma document_results:
  "analyze_financial_document w text = Inr document_mock
   \<or> analyze_financial_document w text = Inr document_api
   \<or> analyze_financial_document w text = Inr document_failed
   \<or> (\<exists>sentiment. analyze_financial_document w text = Inr (document_local sentiment))"
proof -
  obtain r where r: "init_huggingface_models w = Inr r"
    using init_huggingface_models_total by blast
  show ?thesis
  proof (cases r)
    case None
    with r show ?thesis by (simp add: document_cases)
  next
    case (Some m)
    with r show ?thesis
      by (cases m; cases "hf_sentiment w (take 512 text)") (auto simp: document_cases)
  qed
qed

text \<open>
  C9. For every text and every availability of the API key and the local model,
  \<open>analyze_financial_document\<close> returns a result that is not empty: three non-empty
  insight strings, a sentiment field, and a non-empty summary.
\<close>

theorem document_result_nonempty:
  "\<exists>insights sentiment summary.
     analyze_financial_document w text = Inr (insight_result insights sentiment summary)
     \<and> length insights = 3
     \<and> list_all (\<lambda>s. s \<noteq> []) insights
     \<and> summary \<noteq> []
     \<and> is_insight_result (insight_result insights sentiment summary)"
proof -
  consider (mock) "analyze_financial_document w text = Inr document_mock"
    | (api) "analyze_financial_document w text = Inr document_api"
    | (failed) "analyze_financial_document w text = Inr document_failed"
    | (local) sentiment where
        "analyze_financial_document w text = Inr (document_local sentiment)"
    using document_results [of w "text"] by blast
  then show ?thesis
  proof cases
    case mock
    then show ?thesis
      unfolding document_mock_def by (simp only: sum.inject) (rule full_insight_result, simp_all)
  next
    case api
    then show ?thesis
      unfolding document_api_def by (simp only: sum.inject) (rule full_insight_result, simp_all)
  next
    case failed
    then show ?thesis
      unfolding document_failed_def by (simp only: sum.inject) (rule full_insight_result, simp_all)
  next
    case local
    then show ?thesis
      unfolding document_local_def by (simp only: sum.inject) (rule full_insight_result, simp_all)
  qed
qed

theorem document_result_nonempty_witness:
  "\<exists>insights sentiment summary.
     analyze_financial_document local_world ''Rent 1500''
       = Inr (insight_result insights sentiment summary)
     \<and> length insights = 3 \<and> summary \<noteq> []"
  using document_result_nonempty [of local_world "''Rent 1500''"] by blast

section \<open>Properties of the four orchestration operations\<close>

lemma init_nlp_malformed:
  "init_watson_nlp malformed_nlu_world = Inr (Some (Service ''k2'' ''https://nlu''))"
  by (simp add: init_watson_nlp_def malformed_nlu_world_def live_world_def live_env_def)

lemma init_nlp_offline: "init_watson_nlp offline_world = Inr None"
  by (simp add: init_watson_nlp_def offline_world_def)

lemma sentiment_malformed:
  "analyze_financial_sentiment malformed_nlu_world text = Inr (PList [])"
  by (rule sentiment_answered [OF init_nlp_malformed])
     (simp add: malformed_nlu_world_def)

lemma chat_total:
  "\<exists>reply ctx. chat_with_watson w message context = Inr (reply, ctx)
     \<and> (is_nonempty_str reply
          \<or> (\<exists>a. init_watson_assistant w = Inr (Some a)
                 \<and> watson_reply w a (os_getenv w ''WATSON_ASSISTANT_ID'') ctx message
                     = Inr reply))"
proof -
  let ?aid = "os_getenv w ''WATSON_ASSISTANT_ID''"
  obtain r where r: "init_watson_assistant w = Inr r"
    using init_watson_assistant_total by blast
  show ?thesis
  proof (cases r)
    case None
    with r chat_unconfigured [of w message "context"] chosen_response_nonempty
    show ?thesis by simp
  next
    case (Some a)
    with r have a: "init_watson_assistant w = Inr (Some a)" by simp
    show ?thesis
    proof (cases "new_session w a ?aid context")
      case (Inl e)
      from chat_session_failed [OF a Inl] chat_failed_nonempty show ?thesis by simp
    next
      case (Inr ctx)
      show ?thesis
      proof (cases "watson_reply w a ?aid ctx message")
        case (Inl e)
        from chat_message_failed [OF a Inr Inl] chat_failed_nonempty show ?thesis by simp
      next
        case Inr': (Inr reply)
        from chat_answered [OF a Inr Inr'] a Inr' show ?thesis by simp
      qed
    qed
  qed
qed

lemma sentiment_total:
  "\<exists>v. analyze_financial_sentiment w text = Inr v
     \<and> (is_sentiment_result v
          \<or> (\<exists>s. init_watson_nlp w = Inr (Some s) \<and> nlu_analyze w s text = Inr v))"
proof -
  obtain r where r: "init_watson_nlp w = Inr r"
    using init_watson_nlp_total by blast
  show ?thesis
  proof (cases r)
    case None
    with r sentiment_unconfigured [of w "text"] sentiment_mock_shape show ?thesis by simp
  next
    case (Some s)
    with r have s: "init_watson_nlp w = Inr (Some s)" by simp
    show ?thesis
    proof (cases "nlu_analyze w s text")
      case (Inl e)
      from sentiment_failed [OF s Inl] sentiment_mock_shape show ?thesis by simp
    next
      case (Inr v)
      from sentiment_answered [OF s Inr] s Inr show ?thesis by simp
    qed
  qed
qed

lemma granite_total:
  "\<exists>v. call_granite_model w prompt model_type = Inr v
     \<and> (is_str v
          \<or> (\<exists>api_key url. os_getenv w ''GRANITE_API_KEY'' = Some api_key
                 \<and> os_getenv w ''GRANITE_URL'' = Some url
                 \<and> granite_request w api_key url prompt model_type = Inr v))"
proof (cases "\<not> env_set (os_getenv w ''GRANITE_API_KEY'') \<or> \<not> env_set (os_getenv w ''GRANITE_URL'')")
  case True
  then show ?thesis by (simp add: granite_cases)
next
  case False
  then obtain api_key url where k: "os_getenv w ''GRANITE_API_KEY'' = Some api_key"
      "os_getenv w ''GRANITE_URL'' = Some url"
    by (cases "os_getenv w ''GRANITE_API_KEY''"; cases "os_getenv w ''GRANITE_URL''") auto
  with False show ?thesis
    by (cases "granite_request w api_key url prompt model_type") (simp_all add: granite_cases)
qed

lemma document_total:
  "\<exists>v. analyze_financial_document w text = Inr v \<and> is_insight_result v"
proof -
  have "is_insight_result document_mock" "is_insight_result document_api"
       "is_insight_result document_failed" "is_insight_result (document_local s)" for s
    by (simp_all add: document_mock_def document_api_def document_failed_def
          document_local_def insight_result_shape)
  with document_results [of w "text"] show ?thesis by auto
qed

text \<open>
  C1 as stated: each of the four operations returns normally, with a value of its
  expected result shape, for every behaviour of the backends, a malformed payload
  included. When the sentiment backend answers with the JSON array \<open>[]\<close>,
  \<open>analyze_financial_sentiment\<close> returns that array, which has neither a sentiment nor
  keywords.
\<close>

theorem sentiment_payload_unvalidated:
  "analyze_financial_sentiment malformed_nlu_world ''Review my budget'' = Inr (PList [])
   \<and> \<not> is_sentiment_result (PList [])"
  by (simp add: sentiment_malformed is_sentiment_result_def)

text \<open>
  C1 as amended: for every input and every behaviour of the backends, each of the four
  operations returns normally and raises nothing. The result of
  \<open>analyze_financial_document\<close> always has the shape of an insight result. The reply
  of \<open>chat_with_watson\<close> is a non-empty string, the result of
  \<open>analyze_financial_sentiment\<close> has the shape of a sentiment result, and the result of
  \<open>call_granite_model\<close> is a string, unless the backend call succeeded: then the
  result is what the payload holds at the place the code reads, as it was received.
\<close>

theorem orchestration_never_raises:
  "(\<exists>reply ctx. chat_with_watson w message context = Inr (reply, ctx)
      \<and> (is_nonempty_str reply
           \<or> (\<exists>a. init_watson_assistant w = Inr (Some a)
                  \<and> watson_reply w a (os_getenv w ''WATSON_ASSISTANT_ID'') ctx message
                      = Inr reply)))
   \<and> (\<exists>v. analyze_financial_sentiment w text = Inr v
      \<and> (is_sentiment_result v
           \<or> (\<exists>s. init_watson_nlp w = Inr (Some s) \<and> nlu_analyze w s text = Inr v)))
   \<and> (\<exists>v. analyze_financial_document w text = Inr v \<and> is_insight_result v)
   \<and> (\<exists>v. call_granite_model w prompt model_type = Inr v
      \<and> (is_str v
           \<or> (\<exists>api_key url. os_getenv w ''GRANITE_API_KEY'' = Some api_key
                  \<and> os_getenv w ''GRANITE_URL'' = Some url
                  \<and> granite_request w api_key url prompt model_type = Inr v)))"
proof -
  from document_total [of w "text"] chat_total [of w message "context"] sentiment_total [of w "text"]
       granite_total [of w prompt model_type]
  show ?thesis by blast
qed

theorem orchestration_never_raises_witness:
  "(\<exists>reply ctx. chat_with_watson offline_world ''Hello'' PNone = Inr (reply, ctx)
      \<and> is_nonempty_str reply)
   \<and> (\<exists>v. analyze_financial_sentiment offline_world ''Review my budget'' = Inr v
      \<and> is_sentiment_result v)
   \<and> (\<exists>v. analyze_financial_document offline_world ''Review my budget'' = Inr v
      \<and> is_insight_result v)
   \<and> (\<exists>v. call_granite_model offline_world ''Advise me'' ''financial-analysis'' = Inr v
      \<and> is_str v)"
proof -
  have env: "os_getenv offline_world ''GRANITE_API_KEY'' = None"
    by (simp add: offline_world_def)
  from orchestration_never_raises
         [of offline_world "''Hello''" PNone "''Review my budget''" "''Advise me''"
             "''financial-analysis''"]
       init_assistant_offline init_nlp_offline env
  show ?thesis by simp
qed

section \<open>Failure paths\<close>

lemma granite_failed_differs: "granite_failed \<noteq> granite_mock"
  by (simp add: granite_failed_def granite_mock_def)

lemma chat_failed_not_canned: "chat_failed \<notin> set responses"
  by (simp add: responses_def chat_failed_def)

lemma document_failed_differs: "document_failed \<noteq> document_mock"
  by (simp add: document_failed_def document_mock_def insight_result_def)

lemma document_api_differs: "document_api \<noteq> document_mock"
  by (simp add: document_api_def document_mock_def insight_result_def)

lemma granite_request_failed:
  assumes "os_getenv w ''GRANITE_API_KEY'' = Some api_key" and "api_key \<noteq> []"
    and "os_getenv w ''GRANITE_URL'' = Some url" and "url \<noteq> []"
    and "granite_request w api_key url prompt model_type = Inl e"
  shows "call_granite_model w prompt model_type = Inr (PStr granite_failed)"
  using assms by (simp add: granite_cases)

lemma document_local_failed:
  assumes "init_huggingface_models w = Inr (Some LocalModels)"
    and "hf_sentiment w (take 512 text) = Inl e"
  shows "analyze_financial_document w text = Inr document_failed"
  using assms by (simp add: document_cases)

lemma document_api_key:
  assumes "init_huggingface_models w = Inr (Some (ApiKey k))"
  shows "analyze_financial_document (w \<lparr> requests_post := post \<rparr>) text = Inr document_api"
proof -
  have "init_huggingface_models (w \<lparr> requests_post := post \<rparr>) = init_huggingface_models w"
    by (simp add: init_huggingface_models_def Let_def)
  with assms show ?thesis by (simp add: document_cases)
qed

lemma granite_failing:
  "call_granite_model failing_world prompt model_type = Inr (PStr granite_failed)"
  by (simp add: call_granite_model_def granite_request_def raise_for_status_def
        failing_world_def live_world_def live_env_def http_500_def)

lemma granite_offline:
  "call_granite_model offline_world prompt model_type = Inr (PStr granite_mock)"
  by (simp add: call_granite_model_def offline_world_def)

lemma init_hf_failing: "init_huggingface_models failing_world = Inr (Some (ApiKey ''k3''))"
  by (simp add: init_huggingface_models_def failing_world_def live_world_def live_env_def)

lemma init_hf_offline: "init_huggingface_models offline_world = Inr None"
  by (simp add: init_huggingface_models_def offline_world_def)

text \<open>
  C2 as stated: for every backend kind, the result of a configured call that fails is
  drawn from the pool that the unconfigured backend draws from; in particular a
  document analysis whose server answers HTTP 500 returns the document-analysis
  fallback. In a world whose HTTP server answers every request with status 500, the
  generative call returns its one-sentence text, not the numbered list of the
  unconfigured path; and the document analysis, which has an API key there and sends
  no request, returns the result of its API branch, not the unconfigured fallback.
\<close>

theorem failed_call_leaves_pool:
  "call_granite_model failing_world ''Advise me'' ''financial-analysis''
     = Inr (PStr granite_failed)
   \<and> call_granite_model offline_world ''Advise me'' ''financial-analysis''
     = Inr (PStr granite_mock)
   \<and> granite_failed \<noteq> granite_mock
   \<and> analyze_financial_document failing_world ''Rent 1500'' = Inr document_api
   \<and> analyze_financial_document offline_world ''Rent 1500'' = Inr document_mock
   \<and> document_api \<noteq> document_mock"
  by (simp add: granite_failing granite_offline granite_failed_differs document_api_differs
        document_cases init_hf_failing init_hf_offline)

text \<open>
  C2 as amended: the sentiment operation returns the same fixed result when its backend
  is unconfigured and when the configured call fails. The other kinds return, when a
  configured call fails, a fixed value of their own that is not in the unconfigured
  pool: \<open>chat_with_watson\<close> its trouble-connecting sentence, which is none of the five
  canned sentences; \<open>call_granite_model\<close> its one-sentence recommendation;
  \<open>analyze_financial_document\<close>, when the local model fails, its NEUTRAL result. With
  an API key \<open>analyze_financial_document\<close> returns the fixed result of its API branch
  whatever \<open>requests.post\<close> would do.
\<close>

theorem failure_path_results:
  "(init_watson_nlp w = Inr None \<longrightarrow>
      analyze_financial_sentiment w input = Inr sentiment_mock)
   \<and> (init_watson_nlp w = Inr (Some s) \<and> nlu_analyze w s input = Inl e1 \<longrightarrow>
      analyze_financial_sentiment w input = Inr sentiment_mock)
   \<and> (init_watson_assistant w = Inr (Some a)
        \<and> new_session w a (os_getenv w ''WATSON_ASSISTANT_ID'') ctx = Inl e2 \<longrightarrow>
      chat_with_watson w message ctx = Inr (PStr chat_failed, ctx))
   \<and> (init_watson_assistant w = Inr (Some a)
        \<and> new_session w a (os_getenv w ''WATSON_ASSISTANT_ID'') ctx = Inr ctx'
        \<and> watson_reply w a (os_getenv w ''WATSON_ASSISTANT_ID'') ctx' message = Inl e3 \<longrightarrow>
      chat_with_watson w message ctx = Inr (PStr chat_failed, ctx'))
   \<and> chat_failed \<notin> set responses
   \<and> (os_getenv w ''GRANITE_API_KEY'' = Some api_key \<and> api_key \<noteq> []
        \<and> os_getenv w ''GRANITE_URL'' = Some url \<and> url \<noteq> []
        \<and> granite_request w api_key url prompt model_type = Inl e4 \<longrightarrow>
      call_granite_model w prompt model_type = Inr (PStr granite_failed))
   \<and> granite_failed \<noteq> granite_mock
   \<and> (init_huggingface_models w = Inr (Some LocalModels)
        \<and> hf_sentiment w (take 512 input) = Inl e5 \<longrightarrow>
      analyze_financial_document w input = Inr document_failed)
   \<and> document_failed \<noteq> document_mock
   \<and> (init_huggingface_models w = Inr (Some (ApiKey k)) \<longrightarrow>
      analyze_financial_document (w \<lparr> requests_post := post \<rparr>) input = Inr document_api)
   \<and> document_api \<noteq> document_mock"
  using sentiment_unconfigured [of w input] sentiment_failed [of w s input e1]
    chat_session_failed [of w a ctx e2 message]
    chat_message_failed [of w a ctx ctx' message e3]
    granite_request_failed [of w api_key url prompt model_type e4]
    document_local_failed [of w input e5]
    document_api_key [of w k post input]
    chat_failed_not_canned granite_failed_differs document_failed_differs document_api_differs
  by blast

theorem failure_path_results_witness:
  "analyze_financial_sentiment offline_world ''Review my budget'' = Inr sentiment_mock
   \<and> analyze_financial_sentiment failing_world ''Review my budget'' = Inr sentiment_mock
   \<and> chat_with_watson failing_world ''Hello'' PNone = Inr (PStr chat_failed, PNone)
   \<and> chat_with_watson mute_world ''Hello'' PNone
       = Inr (PStr chat_failed, PDict [(''session_id'', PStr ''S1'')])
   \<and> call_granite_model failing_world ''Advise me'' ''financial-analysis''
       = Inr (PStr granite_failed)
   \<and> analyze_financial_document local_world ''Rent 1500'' = Inr document_failed
   \<and> analyze_financial_document (failing_world \<lparr> requests_post := (\<lambda>_ _ _. Inl unreachable) \<rparr>)
         ''Rent 1500'' = Inr document_api"
proof -
  let ?nlu = "Service ''k2'' ''https://nlu''"
  let ?assistant = "Service ''k1'' ''https://assistant''"
  let ?session = "PDict [(''session_id'', PStr ''S1'')]"
  have s1: "init_watson_nlp offline_world = Inr None"
    by (simp add: init_defs world_defs)
  have s2: "init_watson_nlp failing_world = Inr (Some ?nlu)
            \<and> nlu_analyze failing_world ?nlu ''Review my budget'' = Inl unreachable"
    by (simp add: init_defs world_defs)
  have c1: "init_watson_assistant failing_world = Inr (Some ?assistant)
            \<and> new_session failing_world ?assistant
                  (os_getenv failing_world ''WATSON_ASSISTANT_ID'') PNone = Inl unreachable"
    by (simp add: init_defs new_session_def world_defs)
  have c2: "init_watson_assistant mute_world = Inr (Some ?assistant)
            \<and> new_session mute_world ?assistant
                  (os_getenv mute_world ''WATSON_ASSISTANT_ID'') PNone = Inr ?session
            \<and> watson_reply mute_world ?assistant
                  (os_getenv mute_world ''WATSON_ASSISTANT_ID'') ?session ''Hello''
                = Inl unreachable"
    by (simp add: init_defs new_session_def watson_reply_def world_defs)
  have g: "os_getenv failing_world ''GRANITE_API_KEY'' = Some ''k4'' \<and> ''k4'' \<noteq> []
           \<and> os_getenv failing_world ''GRANITE_URL'' = Some ''https://granite''
           \<and> ''https://granite'' \<noteq> []
           \<and> granite_request failing_world ''k4'' ''https://granite'' ''Advise me''
                 ''financial-analysis''
               = Inl (Exn ''HTTPError'' ''500 Server Error: Internal Server Error'')"
    by (simp add: granite_request_def raise_for_status_def world_defs)
  have d1: "init_huggingface_models local_world = Inr (Some LocalModels)
            \<and> hf_sentiment local_world (take 512 ''Rent 1500'')
                = Inl (Exn ''RuntimeError'' ''no model'')"
    by (simp add: init_defs world_defs)
  have d2: "init_huggingface_models failing_world = Inr (Some (ApiKey ''k3''))"
    by (simp add: init_defs world_defs)
  from s1 failure_path_results [where w = offline_world and input = "''Review my budget''"]
  have r1: "analyze_financial_sentiment offline_world ''Review my budget'' = Inr sentiment_mock"
    by blast
  from s2 failure_path_results [where w = failing_world and input = "''Review my budget''"
          and s = ?nlu and ?e1.0 = unreachable]
  have r2: "analyze_financial_sentiment failing_world ''Review my budget'' = Inr sentiment_mock"
    by blast
  from c1 failure_path_results [where w = failing_world and a = ?assistant and ctx = PNone
          and ?e2.0 = unreachable and message = "''Hello''"]
  have r3: "chat_with_watson failing_world ''Hello'' PNone = Inr (PStr chat_failed, PNone)"
    by blast
  from c2 failure_path_results [where w = mute_world and a = ?assistant and ctx = PNone
          and ctx' = ?session and ?e3.0 = unreachable and message = "''Hello''"]
  have r4: "chat_with_watson mute_world ''Hello'' PNone = Inr (PStr chat_failed, ?session)"
    by blast
  from g failure_path_results [where w = failing_world and api_key = "''k4''"
          and url = "''https://granite''" and prompt = "''Advise me''"
          and model_type = "''financial-analysis''"
          and ?e4.0 = "Exn ''HTTPError'' ''500 Server Error: Internal Server Error''"]
  have r5: "call_granite_model failing_world ''Advise me'' ''financial-analysis''
              = Inr (PStr granite_failed)"
    by blast
  from d1 failure_path_results [where w = local_world and input = "''Rent 1500''"
          and ?e5.0 = "Exn ''RuntimeError'' ''no model''"]
  have r6: "analyze_financial_document local_world ''Rent 1500'' = Inr document_failed"
    by blast
  from d2 failure_path_results [where w = failing_world and k = "''k3''"
          and post = "\<lambda>_ _ _. Inl unreachable" and input = "''Rent 1500''"]
  have r7: "analyze_financial_document
              (failing_world \<lparr> requests_post := (\<lambda>_ _ _. Inl unreachable) \<rparr>) ''Rent 1500''
            = Inr document_api"
    by blast
  from r1 r2 r3 r4 r5 r6 r7 show ?thesis by blast
qed

section \<open>Properties of send_chat_message\<close>

lemma send_when_replied:
  assumes "chat_with_watson w message PNone = Inr (response, ctx)"
  shows "send_chat_message w message =
           try_except (enhance w message response) (\<lambda>e. Inr (chat_error e))"
  using assms by (simp add: send_chat_message_def)

lemma enhance_no_keyword:
  "\<not> triggers_analysis message \<Longrightarrow> enhance w message response = Inr response"
  by (simp add: enhance_def)

lemma enhance_not_dict:
  "triggers_analysis message \<Longrightarrow> analyze_financial_sentiment w message = Inr analysis \<Longrightarrow>
     \<not> is_dict analysis \<Longrightarrow> enhance w message response = Inr response"
  by (simp add: enhance_def)

lemma enhance_label:
  "triggers_analysis message \<Longrightarrow> analyze_financial_sentiment w message = Inr analysis \<Longrightarrow>
     is_dict analysis \<Longrightarrow> sentiment_label analysis = Inr (PStr label) \<Longrightarrow>
     enhance w message (PStr base) =
       Inr (PStr (base @ ''\<newline>\<newline>Sentiment Analysis: '' @ capitalize label))"
  by (simp add: enhance_def)

lemma sentiment_mock_label:
  "is_dict sentiment_mock" "sentiment_label sentiment_mock = Inr (PStr ''neutral'')"
  by (simp_all add: sentiment_mock_def sentiment_label_def)

lemma capitalize_neutral: "capitalize ''neutral'' = ''Neutral''"
  by (simp add: case_defs)

text \<open>
  C3 as stated: a message that contains a keyword, in any case, gets a reply with a
  sentiment label appended after the base reply; a message without keyword gets none.
  When the sentiment backend answers with something that is not a dictionary, here the
  JSON array \<open>[]\<close>, a message with the keyword \<open>review\<close> gets the base reply alone.
\<close>

theorem keyword_without_label:
  "triggers_analysis ''Please REVIEW my spending''
   \<and> send_chat_message malformed_nlu_world ''Please REVIEW my spending''
       = Inr (PStr ''Reply in session S1'')
   \<and> \<not> is_substring ''Sentiment Analysis'' ''Reply in session S1''"
  by (simp add: send_defs chat_defs init_defs world_defs case_defs)

lemma canned_without_label: "\<forall>r \<in> set responses. \<not> is_substring ''Sentiment Analysis'' r"
  by (simp add: responses_def)

lemma chat_unconfigured_canned:
  assumes "init_watson_assistant w = Inr None"
    and "chat_with_watson w message context = Inr (PStr base, ctx)"
  shows "base \<in> set responses"
proof -
  have "random_index w mod length responses < length responses"
    by (simp add: responses_def)
  then have "responses ! (random_index w mod length responses) \<in> set responses"
    by (rule nth_mem)
  with assms chat_unconfigured [OF assms(1), of message "context"] show ?thesis by simp
qed

text \<open>
  C3 as amended, for a base reply that is a string. A message without keyword gets the
  base reply unchanged, and a base reply from the canned pool holds no sentiment line.
  A message with a keyword gets: the base reply unchanged when the analysis is not a
  dictionary; the base reply, a blank line and \<open>Sentiment Analysis: \<close> with the label
  capitalised (first letter upper case, the rest lower case) when the analysis is a
  dictionary that yields a string label; and so the base reply followed by
  \<open>Sentiment Analysis: Neutral\<close> when the sentiment analysis returns its fallback.
\<close>

theorem send_chat_message_enrichment:
  assumes "chat_with_watson w message PNone = Inr (PStr base, ctx)"
  shows "(\<not> triggers_analysis message \<longrightarrow> send_chat_message w message = Inr (PStr base))
   \<and> (\<not> triggers_analysis message \<and> init_watson_assistant w = Inr None \<longrightarrow>
      \<not> is_substring ''Sentiment Analysis'' base)
   \<and> (triggers_analysis message
        \<and> analyze_financial_sentiment w message = Inr analysis
        \<and> \<not> is_dict analysis \<longrightarrow>
      send_chat_message w message = Inr (PStr base))
   \<and> (triggers_analysis message
        \<and> analyze_financial_sentiment w message = Inr analysis
        \<and> is_dict analysis
        \<and> sentiment_label analysis = Inr (PStr label) \<longrightarrow>
      send_chat_message w message =
        Inr (PStr (base @ ''\<newline>\<newline>Sentiment Analysis: '' @ capitalize label)))
   \<and> (triggers_analysis message
        \<and> analyze_financial_sentiment w message = Inr sentiment_mock \<longrightarrow>
      send_chat_message w message =
        Inr (PStr (base @ ''\<newline>\<newline>Sentiment Analysis: Neutral'')))"
  using enhance_no_keyword [of message w "PStr base"]
    enhance_not_dict [of message w analysis "PStr base"]
    enhance_label [of message w analysis label base]
    enhance_label [of message w sentiment_mock "''neutral''" base]
    sentiment_mock_label capitalize_neutral
    chat_unconfigured_canned [OF _ assms] canned_without_label
  by (simp add: send_when_replied [OF assms])

theorem send_chat_message_enrichment_witness:
  "send_chat_message offline_world ''Hello there'' = Inr (PStr (responses ! 0))
   \<and> \<not> is_substring ''Sentiment Analysis'' (responses ! 0)
   \<and> send_chat_message malformed_nlu_world ''Run the SENTIMENT check''
       = Inr (PStr ''Reply in session S1'')
   \<and> send_chat_message live_world ''Please Analyze my budget''
       = Inr (PStr ''Reply in session S1\<newline>\<newline>Sentiment Analysis: Positive'')
   \<and> send_chat_message offline_world ''Can you review my spending?''
       = Inr (PStr (responses ! 0 @ ''\<newline>\<newline>Sentiment Analysis: Neutral''))"
proof -
  let ?session = "PDict [(''session_id'', PStr ''S1'')]"
  let ?positive = "PDict
          [(''sentiment'', PDict [(''document'',
               PDict [(''label'', PStr ''positive''), (''score'', PFloat (9 / 10))])]),
           (''keywords'', PList [])]"
  have k1: "\<not> triggers_analysis ''Hello there''"
    and k2: "triggers_analysis ''Run the SENTIMENT check''"
    and k3: "triggers_analysis ''Please Analyze my budget''"
    and k4: "triggers_analysis ''Can you review my spending?''"
    by (simp_all add: triggers_analysis_def trigger_keywords_def case_defs)
  have off: "chat_with_watson offline_world m PNone = Inr (PStr (responses ! 0), PNone)" for m
    by (rule chat_offline)
  have mal: "chat_with_watson malformed_nlu_world m PNone
               = Inr (PStr ''Reply in session S1'', ?session)" for m
    by (simp add: chat_defs init_defs world_defs)
  have live: "chat_with_watson live_world m PNone
               = Inr (PStr ''Reply in session S1'', ?session)" for m
    by (rule chat_live_absent)
  have a2: "analyze_financial_sentiment malformed_nlu_world ''Run the SENTIMENT check''
              = Inr (PList []) \<and> \<not> is_dict (PList [])"
    by (simp add: sentiment_malformed)
  have a3: "analyze_financial_sentiment live_world ''Please Analyze my budget'' = Inr ?positive
            \<and> is_dict ?positive \<and> sentiment_label ?positive = Inr (PStr ''positive'')"
    by (simp add: analyze_financial_sentiment_def sentiment_label_def init_defs world_defs)
  have a4: "analyze_financial_sentiment offline_world ''Can you review my spending?''
              = Inr sentiment_mock"
    by (rule sentiment_unconfigured [OF init_nlp_offline])
  have c3: "capitalize ''positive'' = ''Positive''"
    by (simp add: case_defs)
  from send_chat_message_enrichment [OF off, of "''Hello there''"] k1 init_assistant_offline
  have r1: "send_chat_message offline_world ''Hello there'' = Inr (PStr (responses ! 0))
            \<and> \<not> is_substring ''Sentiment Analysis'' (responses ! 0)"
    by blast
  from send_chat_message_enrichment [OF mal, of "''Run the SENTIMENT check''" "PList []"] k2 a2
  have r2: "send_chat_message malformed_nlu_world ''Run the SENTIMENT check''
              = Inr (PStr ''Reply in session S1'')"
    by blast
  from send_chat_message_enrichment
         [OF live, of "''Please Analyze my budget''" ?positive "''positive''"] k3 a3 c3
  have r3: "send_chat_message live_world ''Please Analyze my budget''
              = Inr (PStr ''Reply in session S1\<newline>\<newline>Sentiment Analysis: Positive'')"
    by simp
  from send_chat_message_enrichment [OF off, of "''Can you review my spending?''"] k4 a4
  have r4: "send_chat_message offline_world ''Can you review my spending?''
              = Inr (PStr (responses ! 0 @ ''\<newline>\<newline>Sentiment Analysis: Neutral''))"
    by blast
  from r1 r2 r3 r4 show ?thesis by blast
qed

lemma message_frame:
  "init_watson_assistant (w \<lparr> assistant_message := f \<rparr>) = init_watson_assistant w"
  "init_watson_nlp (w \<lparr> assistant_message := f \<rparr>) = init_watson_nlp w"
  "new_session (w \<lparr> assistant_message := f \<rparr>) a i c = new_session w a i c"
  "analyze_financial_sentiment (w \<lparr> assistant_message := f \<rparr>) m
     = analyze_financial_sentiment w m"
  "enhance (w \<lparr> assistant_message := f \<rparr>) m r = enhance w m r"
  by (simp_all add: init_defs new_session_def analyze_financial_sentiment_def enhance_def Let_def
        cong: if_cong option.case_cong)

lemma chat_absent_frame:
  assumes "\<forall>a session sid.
             init_watson_assistant w = Inr (Some a)
             \<and> assistant_create_session w a (os_getenv w ''WATSON_ASSISTANT_ID'') = Inr session
             \<and> py_subscript session ''session_id'' = Inr sid
           \<longrightarrow> f a (os_getenv w ''WATSON_ASSISTANT_ID'') sid message
               = assistant_message w a (os_getenv w ''WATSON_ASSISTANT_ID'') sid message"
  shows "chat_with_watson (w \<lparr> assistant_message := f \<rparr>) message PNone
           = chat_with_watson w message PNone"
proof -
  let ?w = "w \<lparr> assistant_message := f \<rparr>"
  let ?aid = "os_getenv w ''WATSON_ASSISTANT_ID''"
  obtain r where r: "init_watson_assistant w = Inr r"
    using init_watson_assistant_total by blast
  show ?thesis
  proof (cases r)
    case None
    with r show ?thesis by (simp add: chat_with_watson_def message_frame)
  next
    case (Some a)
    with r have a: "init_watson_assistant w = Inr (Some a)" by simp
    show ?thesis
    proof (cases "new_session w a ?aid PNone")
      case (Inl e)
      with a show ?thesis by (simp add: chat_with_watson_def message_frame)
    next
      case (Inr ctx)
      then obtain session sid where s: "assistant_create_session w a ?aid = Inr session"
          "py_subscript session ''session_id'' = Inr sid" "ctx = PDict [(''session_id'', sid)]"
        by (auto simp: new_session_absent bind_exn_def split: sum.splits)
      with a assms have "f a ?aid sid message = assistant_message w a ?aid sid message"
        by blast
      with s have "watson_reply ?w a ?aid ctx message = watson_reply w a ?aid ctx message"
        by (simp add: watson_reply_def)
      with a Inr show ?thesis by (simp add: chat_with_watson_def message_frame)
    qed
  qed
qed

text \<open>
  C10. \<open>send_chat_message\<close> calls \<open>chat_with_watson\<close> with an absent context and
  builds its reply from the reply text alone: the context that comes back is dropped.
  So no session handle of an earlier turn enters a turn: whenever the message call of
  Watson Assistant is made, it carries the handle of the session created on this very
  turn, and what the backend would answer for any other handle has no influence on the
  reply.
\<close>

theorem send_chat_message_fresh_context:
  "send_chat_message w message =
     try_except
       (bind_exn (chat_with_watson w message PNone) (\<lambda>result. enhance w message (fst result)))
       (\<lambda>e. Inr (chat_error e))
   \<and> ((\<forall>a session sid.
          init_watson_assistant w = Inr (Some a)
          \<and> assistant_create_session w a (os_getenv w ''WATSON_ASSISTANT_ID'') = Inr session
          \<and> py_subscript session ''session_id'' = Inr sid
        \<longrightarrow> f a (os_getenv w ''WATSON_ASSISTANT_ID'') sid message
            = assistant_message w a (os_getenv w ''WATSON_ASSISTANT_ID'') sid message)
      \<longrightarrow> send_chat_message (w \<lparr> assistant_message := f \<rparr>) message
          = send_chat_message w message)"
proof -
  have one: "send_chat_message w message =
     try_except
       (bind_exn (chat_with_watson w message PNone) (\<lambda>result. enhance w message (fst result)))
       (\<lambda>e. Inr (chat_error e))"
    by (simp add: send_chat_message_def case_prod_unfold)
  have two: "send_chat_message (w \<lparr> assistant_message := f \<rparr>) message
          = send_chat_message w message"
    if "\<forall>a session sid.
          init_watson_assistant w = Inr (Some a)
          \<and> assistant_create_session w a (os_getenv w ''WATSON_ASSISTANT_ID'') = Inr session
          \<and> py_subscript session ''session_id'' = Inr sid
        \<longrightarrow> f a (os_getenv w ''WATSON_ASSISTANT_ID'') sid message
            = assistant_message w a (os_getenv w ''WATSON_ASSISTANT_ID'') sid message"
    using chat_absent_frame [of w f message] that
    by (simp add: send_chat_message_def message_frame)
  from one two show ?thesis by blast
qed

theorem send_chat_message_fresh_context_witness:
  "send_chat_message (live_world \<lparr> assistant_message := single_session_message \<rparr>) ''Hello''
     = send_chat_message live_world ''Hello''
   \<and> send_chat_message live_world ''Hello'' = Inr (PStr ''Reply in session S1'')
   \<and> single_session_message (Service ''k1'' ''https://assistant'') (Some ''a1'') (PStr ''S0'')
         ''Hello''
     \<noteq> assistant_message live_world (Service ''k1'' ''https://assistant'') (Some ''a1'')
         (PStr ''S0'') ''Hello''"
proof -
  let ?aid = "os_getenv live_world ''WATSON_ASSISTANT_ID''"
  have same: "\<forall>a session sid.
          init_watson_assistant live_world = Inr (Some a)
          \<and> assistant_create_session live_world a ?aid = Inr session
          \<and> py_subscript session ''session_id'' = Inr sid
        \<longrightarrow> single_session_message a ?aid sid ''Hello''
            = assistant_message live_world a ?aid sid ''Hello''"
    by (auto simp: single_session_message_def live_world_def)
  have differ: "single_session_message (Service ''k1'' ''https://assistant'') (Some ''a1'')
         (PStr ''S0'') ''Hello''
     \<noteq> assistant_message live_world (Service ''k1'' ''https://assistant'') (Some ''a1'')
         (PStr ''S0'') ''Hello''"
    by (simp add: single_session_message_def live_world_def live_message_def)
  have "\<not> triggers_analysis ''Hello''"
    by (simp add: triggers_analysis_def trigger_keywords_def case_defs)
  then have reply: "try_except
       (bind_exn (chat_with_watson live_world ''Hello'' PNone)
          (\<lambda>result. enhance live_world ''Hello'' (fst result)))
       (\<lambda>e. Inr (chat_error e)) = Inr (PStr ''Reply in session S1'')"
    by (simp add: chat_live_absent enhance_no_keyword)
  from send_chat_message_fresh_context [of live_world "''Hello''" single_session_message]
       same differ reply
  show ?thesis by simp
qed

end
